theory Spec2Isabelle
  imports Main
begin

section \<open>Data model of \<^verbatim>\<open>network/connection.go\<close>\<close>

text \<open>
  Go's \<^verbatim>\<open>int64\<close> epoch seconds and \<^verbatim>\<open>int\<close> process ids are integers; the one
  place where the source does arithmetic on them (\<^verbatim>\<open>time.Now().Unix()-3\<close>) has the
  two's complement wrap-around written out (\<open>wrap_int64\<close>). A \<^verbatim>\<open>net.IP\<close> is its byte
  slice, \<^verbatim>\<open>nil\<close> being the empty list. Opaque collaborator values
  (\<^verbatim>\<open>interface{}\<close> contexts, resolver information, tunnel options) are payloads that
  the code only stores and copies.
\<close>

type_synonym int64 = int
type_synonym IP = "nat list"
type_synonym payload = string

definition wrap_int64 :: "int \<Rightarrow> int64" where
  "wrap_int64 x = (x + 2 ^ 63) mod 2 ^ 64 - 2 ^ 63"

text \<open>
  Modelled from the spec: the \<^verbatim>\<open>Verdict\<close> type is declared in another file of
  the package. The spec lists its values in the severity order
  Undecided < Accept < Trust < RerouteToNS < RerouteToTunnel < Block < Drop < Failed.
\<close>

datatype Verdict =
    VerdictUndecided
  | VerdictAccept
  | VerdictTrust
  | VerdictRerouteToNameserver
  | VerdictRerouteToTunnel
  | VerdictBlock
  | VerdictDrop
  | VerdictFailed

fun severity :: "Verdict \<Rightarrow> nat" where
  "severity VerdictUndecided = 0"
| "severity VerdictAccept = 1"
| "severity VerdictTrust = 2"
| "severity VerdictRerouteToNameserver = 3"
| "severity VerdictRerouteToTunnel = 4"
| "severity VerdictBlock = 5"
| "severity VerdictDrop = 6"
| "severity VerdictFailed = 7"

definition worse :: "Verdict \<Rightarrow> Verdict \<Rightarrow> Verdict" where
  "worse a b = (if severity a < severity b then b else a)"

text \<open>\<^verbatim>\<open>type ConnectionType int8\<close> with its three constants.\<close>

datatype ConnectionType = Undefined | IPConnection | DNSRequest

text \<open>
  \<^verbatim>\<open>packet.IPVersion\<close> (0 when not set), \<^verbatim>\<open>netutils.IPScope\<close> and the fields of
  \<^verbatim>\<open>packet.Info\<close> that the source reads or writes. \<open>pi_SeenAt\<close> is
  \<^verbatim>\<open>SeenAt.Unix()\<close>.
\<close>

datatype IPVersion = IPVersionUnset | IPv4 | IPv6

datatype IPScope =
    ScopeInvalid
  | ScopeUndefined
  | HostLocal
  | LinkLocal
  | SiteLocal
  | Global
  | LocalMulticast
  | GlobalMulticast

definition UDP :: nat where
  "UDP = 17"

record PacketInfo =
  pi_Inbound :: bool
  pi_Version :: IPVersion
  pi_Protocol :: nat
  pi_Src :: IP
  pi_SrcPort :: nat
  pi_Dst :: IP
  pi_DstPort :: nat
  pi_PID :: int
  pi_SeenAt :: int64

text \<open>
  Modelled from the spec: the accessors of \<^verbatim>\<open>packet.Info\<close> (declared in the
  packet package). The remote side of an inbound packet is its source, the local side its
  destination, and the other way round for an outbound packet.
\<close>

definition RemoteIP :: "PacketInfo \<Rightarrow> IP" where
  "RemoteIP i = (if pi_Inbound i then pi_Src i else pi_Dst i)"

definition RemotePort :: "PacketInfo \<Rightarrow> nat" where
  "RemotePort i = (if pi_Inbound i then pi_SrcPort i else pi_DstPort i)"

definition LocalIP_of :: "PacketInfo \<Rightarrow> IP" where
  "LocalIP_of i = (if pi_Inbound i then pi_Dst i else pi_Src i)"

definition LocalPort_of :: "PacketInfo \<Rightarrow> nat" where
  "LocalPort_of i = (if pi_Inbound i then pi_DstPort i else pi_SrcPort i)"

text \<open>
  A \<^verbatim>\<open>packet.Packet\<close> as this file uses it: \<^verbatim>\<open>Info()\<close>, \<^verbatim>\<open>GetConnectionID()\<close>,
  \<^verbatim>\<open>InfoOnly()\<close>, \<^verbatim>\<open>ExpectInfo()\<close>. Its \<^verbatim>\<open>Drop()\<close> is an effect (below).
\<close>

record Packet =
  Info :: PacketInfo
  GetConnectionID :: string
  InfoOnly :: bool
  ExpectInfo :: bool

text \<open>
  The process and its profile, as far as this file reads them. \<^verbatim>\<open>Profile()\<close> and
  \<^verbatim>\<open>LocalProfile()\<close> are called on possibly-nil receivers by the source and compared
  with nil afterwards, so both are nil-safe accessors here.
\<close>

record LocalProfile =
  lp_ID :: string
  lp_Name :: string
  lp_Source :: string
  lp_Internal :: bool

record LayeredProfile =
  localProfile :: "LocalProfile option"
  RevisionCnt :: nat
  EnableHistory :: bool
  GetProfileSource :: "string \<Rightarrow> string"

record Process =
  Name :: string
  Path :: string
  CmdLine :: string
  Pid :: int
  CreatedAt :: int64
  profile :: "LayeredProfile option"

definition Profile_of :: "Process option \<Rightarrow> LayeredProfile option" where
  "Profile_of p = (case p of None \<Rightarrow> None | Some pr \<Rightarrow> profile pr)"

definition LocalProfile_of :: "LayeredProfile option \<Rightarrow> LocalProfile option" where
  "LocalProfile_of l = (case l of None \<Rightarrow> None | Some lay \<Rightarrow> localProfile lay)"

record ProcessContext =
  pc_ProcessName :: string
  pc_ProfileName :: string
  pc_BinaryPath :: string
  pc_CmdLine :: string
  pc_PID :: int
  pc_CreatedAt :: int64
  pc_Profile :: string
  pc_Source :: string

record Entity =
  IP :: IP
  Protocol :: nat
  Port :: nat
  Domain :: string
  CNAME :: "string list"
  IPScope :: IPScope
  dstPort :: nat

record Reason =
  Msg :: string
  OptionKey :: string
  Profile :: string
  Context :: "payload option"

record VerdictFields =
  Worst :: Verdict
  Active :: Verdict
  Firewall :: Verdict

text \<open>
  A buffered Go channel of packets: its capacity, the packets buffered (oldest first)
  and whether it was closed. A \<^verbatim>\<open>FirewallHandler\<close> is a function value that the file
  only stores and compares with nil; it is a reference here.
\<close>

record Chan =
  chan_cap :: nat
  chan_buf :: "Packet list"
  chan_closed :: bool

type_synonym FirewallHandler = nat

text \<open>
  Modelled from the spec: the database key of \<^verbatim>\<open>record.Base\<close> is computed by
  \<^verbatim>\<open>makeKey\<close> (declared in another file of the package) from the PID, a scope tag and the
  connection ID.
\<close>

datatype dbScope = dbScopeDNS | dbScopeIP

datatype dbKey = makeKey int dbScope string

record Connection =
  dbKey :: "dbKey option"
  metaModified :: int64
  metaDeleted :: int64
  ID :: string
  Type :: ConnectionType
  External :: bool
  Scope :: string
  IPVersion :: IPVersion
  Inbound :: bool
  IPProtocol :: nat
  LocalIP :: IP
  LocalIPScope :: IPScope
  LocalPort :: nat
  PID :: int
  Entity :: "Entity option"
  Resolver :: "payload option"
  Verdict :: VerdictFields
  Reason :: Reason
  Started :: int64
  Ended :: int64
  VerdictPermanent :: bool
  Inspecting :: bool
  Tunneled :: bool
  Encrypted :: bool
  TunnelOpts :: "payload option"
  ProcessContext :: ProcessContext
  DNSContext :: "payload option"
  TunnelContext :: "payload option"
  HistoryEnabled :: bool
  BandwidthEnabled :: bool
  BytesReceived :: nat
  BytesSent :: nat
  pktQueue :: "Chan option"
  pktQueueActive :: bool
  dataComplete :: bool
  Internal :: bool
  process :: "Process option"
  firewallHandler :: "FirewallHandler option"
  saveWhenFinished :: bool
  activeInspectors :: "bool list"
  inspectorData :: "(nat \<times> payload) list"
  ProfileRevisionCounter :: nat
  addedToMetrics :: bool

text \<open>
  What the code does to its collaborators, in the order it does it: log lines (level and
  format string), the packet's \<^verbatim>\<open>Drop()\<close>, worker start, registry tables, metrics,
  the database controller and the resolver.
\<close>

datatype LogLevel = LvlTrace | LvlDebug | LvlInfo | LvlWarning

datatype Effect =
    Log LogLevel string
  | PktDrop Packet
  | StartWorker string
  | ConnsAdd string
  | DnsConnsAdd string
  | ConnsDelete string
  | DnsConnsDelete string
  | MetricsAdd string
  | PushUpdate Connection
  | UpdateDuration int64
  | RemoveOpenDNSRequest int string
  | CloseChan

fun is_PushUpdate :: "Effect \<Rightarrow> bool" where
  "is_PushUpdate (PushUpdate c) = True"
| "is_PushUpdate e = False"

text \<open>A nil dereference or a send on a closed channel stops the Go program.\<close>

datatype Panic =
    NilPointerDereference
  | SendOnClosedChannel
  | CloseOfNilChannel
  | CloseOfClosedChannel

section \<open>The verdict state machine\<close>

definition Process :: "Connection \<Rightarrow> Process option" where
  "Process conn = process conn"

definition SetVerdictDirectly :: "Verdict \<Rightarrow> Connection \<Rightarrow> Connection" where
  "SetVerdictDirectly newVerdict conn =
     conn\<lparr>Verdict := (Verdict conn)\<lparr>Firewall := newVerdict\<rparr>\<rparr>"

definition SetVerdict ::
  "Verdict \<Rightarrow> string \<Rightarrow> string \<Rightarrow> payload option \<Rightarrow> Connection \<Rightarrow> bool \<times> Connection" where
  "SetVerdict newVerdict reason reasonOptionKey reasonCtx conn =
     (let c1 = SetVerdictDirectly newVerdict conn;
          r1 = (Reason c1)\<lparr>Msg := reason, Context := reasonCtx\<rparr>;
          r2 = r1\<lparr>OptionKey := [], Profile := []\<rparr>;
          r3 = (if reasonOptionKey \<noteq> [] then
                  (case Profile_of (Process c1) of
                     None \<Rightarrow> r2
                   | Some lp \<Rightarrow>
                       r2\<lparr>OptionKey := reasonOptionKey,
                          Profile := GetProfileSource lp reasonOptionKey\<rparr>)
                else r2)
      in (True, c1\<lparr>Reason := r3\<rparr>))"

definition AcceptWithContext ::
  "string \<Rightarrow> string \<Rightarrow> payload option \<Rightarrow> Connection \<Rightarrow> Connection \<times> Effect list" where
  "AcceptWithContext reason reasonOptionKey ctx conn =
     (case SetVerdict VerdictAccept reason reasonOptionKey ctx conn of
        (ok, c) \<Rightarrow>
          (c, if \<not> ok then [Log LvlWarning ''filter: tried to accept %s, but current verdict is %s'']
              else []))"

definition Accept :: "string \<Rightarrow> string \<Rightarrow> Connection \<Rightarrow> Connection \<times> Effect list" where
  "Accept reason reasonOptionKey conn = AcceptWithContext reason reasonOptionKey None conn"

definition BlockWithContext ::
  "string \<Rightarrow> string \<Rightarrow> payload option \<Rightarrow> Connection \<Rightarrow> Connection \<times> Effect list" where
  "BlockWithContext reason reasonOptionKey ctx conn =
     (case SetVerdict VerdictBlock reason reasonOptionKey ctx conn of
        (ok, c) \<Rightarrow>
          (c, if \<not> ok then [Log LvlWarning ''filter: tried to block %s, but current verdict is %s'']
              else []))"

definition Block :: "string \<Rightarrow> string \<Rightarrow> Connection \<Rightarrow> Connection \<times> Effect list" where
  "Block reason reasonOptionKey conn = BlockWithContext reason reasonOptionKey None conn"

definition DropWithContext ::
  "string \<Rightarrow> string \<Rightarrow> payload option \<Rightarrow> Connection \<Rightarrow> Connection \<times> Effect list" where
  "DropWithContext reason reasonOptionKey ctx conn =
     (case SetVerdict VerdictDrop reason reasonOptionKey ctx conn of
        (ok, c) \<Rightarrow>
          (c, if \<not> ok then [Log LvlWarning ''filter: tried to drop %s, but current verdict is %s'']
              else []))"

definition Drop :: "string \<Rightarrow> string \<Rightarrow> Connection \<Rightarrow> Connection \<times> Effect list" where
  "Drop reason reasonOptionKey conn = DropWithContext reason reasonOptionKey None conn"

definition DenyWithContext ::
  "string \<Rightarrow> string \<Rightarrow> payload option \<Rightarrow> Connection \<Rightarrow> Connection \<times> Effect list" where
  "DenyWithContext reason reasonOptionKey ctx conn =
     (if Inbound conn then DropWithContext reason reasonOptionKey ctx conn
      else BlockWithContext reason reasonOptionKey ctx conn)"

definition Deny :: "string \<Rightarrow> string \<Rightarrow> Connection \<Rightarrow> Connection \<times> Effect list" where
  "Deny reason reasonOptionKey conn = DenyWithContext reason reasonOptionKey None conn"

definition FailedWithContext ::
  "string \<Rightarrow> string \<Rightarrow> payload option \<Rightarrow> Connection \<Rightarrow> Connection \<times> Effect list" where
  "FailedWithContext reason reasonOptionKey ctx conn =
     (case SetVerdict VerdictFailed reason reasonOptionKey ctx conn of
        (ok, c) \<Rightarrow>
          (c, if \<not> ok
              then [Log LvlWarning ''filter: tried to drop %s due to error but current verdict is %s'']
              else []))"

definition Failed :: "string \<Rightarrow> string \<Rightarrow> Connection \<Rightarrow> Connection \<times> Effect list" where
  "Failed reason reasonOptionKey conn = FailedWithContext reason reasonOptionKey None conn"

text \<open>
  A sequence of verdict assignments by the firewall handler: each call of the verdict
  API with its arguments, applied in order.
\<close>

datatype VerdictCall =
    CallAccept string string
  | CallBlock string string
  | CallDrop string string
  | CallDeny string string
  | CallFailed string string
  | CallSetVerdict Verdict string string "payload option"
  | CallSetVerdictDirectly Verdict

fun call :: "VerdictCall \<Rightarrow> Connection \<Rightarrow> Connection" where
  "call (CallAccept r k) conn = fst (Accept r k conn)"
| "call (CallBlock r k) conn = fst (Block r k conn)"
| "call (CallDrop r k) conn = fst (Drop r k conn)"
| "call (CallDeny r k) conn = fst (Deny r k conn)"
| "call (CallFailed r k) conn = fst (Failed r k conn)"
| "call (CallSetVerdict v r k x) conn = snd (SetVerdict v r k x conn)"
| "call (CallSetVerdictDirectly v) conn = SetVerdictDirectly v conn"

fun calls :: "VerdictCall list \<Rightarrow> Connection \<Rightarrow> Connection" where
  "calls [] conn = conn"
| "calls (c # cs) conn = calls cs (call c conn)"

text \<open>
  The spec's reading of the Worst field, to compare with the code: the verdict a call
  asks for, and the maximum by severity of the initial Worst and all verdicts asked for.
\<close>

fun spec_assigned :: "Connection \<Rightarrow> VerdictCall \<Rightarrow> Verdict" where
  "spec_assigned conn (CallAccept r k) = VerdictAccept"
| "spec_assigned conn (CallBlock r k) = VerdictBlock"
| "spec_assigned conn (CallDrop r k) = VerdictDrop"
| "spec_assigned conn (CallDeny r k) = (if Inbound conn then VerdictDrop else VerdictBlock)"
| "spec_assigned conn (CallFailed r k) = VerdictFailed"
| "spec_assigned conn (CallSetVerdict v r k x) = v"
| "spec_assigned conn (CallSetVerdictDirectly v) = v"

fun spec_Worst :: "Connection \<Rightarrow> VerdictCall list \<Rightarrow> Verdict" where
  "spec_Worst conn [] = Worst (Verdict conn)"
| "spec_Worst conn (c # cs) = worse (spec_Worst conn cs) (spec_assigned conn c)"

section \<open>The packet queue\<close>

text \<open>
  \<^verbatim>\<open>defaultFirewallHandler\<close> is a package variable set by the firewall package; it is
  the parameter \<open>dfh\<close>. The queue lock is taken and released inside each function and is
  not part of the state. \<^verbatim>\<open>select\<close> with a \<^verbatim>\<open>default\<close> case sends if the buffer has
  room and takes the default otherwise (always, on a nil channel).
\<close>

definition SetFirewallHandler ::
  "FirewallHandler option \<Rightarrow> Connection \<Rightarrow> Connection \<times> Effect list" where
  "SetFirewallHandler handler conn =
     (case handler of
        None \<Rightarrow> (conn, [])
      | Some h \<Rightarrow>
          (let c1 = (if \<not> pktQueueActive conn
                     then conn\<lparr>pktQueue :=
                                 Some \<lparr>chan_cap = 100, chan_buf = [], chan_closed = False\<rparr>,
                               pktQueueActive := True\<rparr>
                     else conn);
               evs = (if firewallHandler c1 = None then [StartWorker ''packet handler'']
                      else [])
           in (c1\<lparr>firewallHandler := Some h\<rparr>, evs)))"

definition UpdateFirewallHandler :: "FirewallHandler option \<Rightarrow> Connection \<Rightarrow> Connection" where
  "UpdateFirewallHandler handler conn =
     (if handler \<noteq> None \<and> firewallHandler conn \<noteq> None
      then conn\<lparr>firewallHandler := handler\<rparr> else conn)"

definition StopFirewallHandler :: "Connection \<Rightarrow> Panic + Connection \<times> Effect list" where
  "StopFirewallHandler conn =
     (let c1 = conn\<lparr>firewallHandler := None\<rparr>
      in if pktQueueActive c1 then
           (case pktQueue c1 of
              None \<Rightarrow> Inl CloseOfNilChannel
            | Some ch \<Rightarrow>
                if chan_closed ch then Inl CloseOfClosedChannel
                else Inr (c1\<lparr>pktQueueActive := False, pktQueue := None\<rparr>, [CloseChan]))
         else Inr (c1\<lparr>pktQueue := None\<rparr>, []))"

definition HandlePacket ::
  "(Connection \<Rightarrow> Packet \<Rightarrow> Connection \<times> Effect list) \<Rightarrow> Connection \<Rightarrow> Packet
     \<Rightarrow> Panic + Connection \<times> Effect list" where
  "HandlePacket dfh conn pkt =
     (if pktQueueActive conn then
        (case pktQueue conn of
           None \<Rightarrow>
             Inr (conn,
                  [Log LvlDebug ''filter: dropping packet %s, as there is no space in the connection's handling queue'',
                   PktDrop pkt])
         | Some ch \<Rightarrow>
             if chan_closed ch then Inl SendOnClosedChannel
             else if length (chan_buf ch) < chan_cap ch
             then Inr (conn\<lparr>pktQueue := Some (ch\<lparr>chan_buf := chan_buf ch @ [pkt]\<rparr>)\<rparr>, [])
             else
               Inr (conn,
                    [Log LvlDebug ''filter: dropping packet %s, as there is no space in the connection's handling queue'',
                     PktDrop pkt]))
      else
        (case dfh conn pkt of
           (c, evs) \<Rightarrow> Inr (c, evs @ [UpdateDuration (pi_SeenAt (Info pkt))])))"

text \<open>
  What holds of the queue fields in every state the file produces: the queue is made
  active only together with a fresh channel of capacity 100, and the channel is closed
  only together with clearing the flag.
\<close>

definition queue_inv :: "Connection \<Rightarrow> bool" where
  "queue_inv conn =
     (if pktQueueActive conn then
        (case pktQueue conn of
           None \<Rightarrow> False
         | Some ch \<Rightarrow>
             chan_cap ch = 100 \<and> \<not> chan_closed ch \<and> length (chan_buf ch) \<le> 100)
      else True)"

definition queued :: "Connection \<Rightarrow> Packet list" where
  "queued conn = (case pktQueue conn of None \<Rightarrow> [] | Some ch \<Rightarrow> chan_buf ch)"

section \<open>Saving and deleting\<close>

text \<open>
  Modelled from the spec: \<^verbatim>\<open>UpdateMeta\<close>, \<^verbatim>\<open>KeyIsSet\<close>, \<^verbatim>\<open>SetKey\<close> and
  \<^verbatim>\<open>Meta().Delete()\<close> belong to the embedded \<^verbatim>\<open>record.Base\<close> (refresh the record
  metadata; mark the record deleted), and \<^verbatim>\<open>addToMetrics\<close> is declared in another
  file of the package (account the connection in metrics once).
\<close>

definition UpdateMeta :: "int64 \<Rightarrow> Connection \<Rightarrow> Connection" where
  "UpdateMeta now conn = conn\<lparr>metaModified := now\<rparr>"

definition MetaDelete :: "int64 \<Rightarrow> Connection \<Rightarrow> Connection" where
  "MetaDelete now conn = conn\<lparr>metaDeleted := now\<rparr>"

definition KeyIsSet :: "Connection \<Rightarrow> bool" where
  "KeyIsSet conn = (dbKey conn \<noteq> None)"

definition SetKey :: "dbKey \<Rightarrow> Connection \<Rightarrow> Connection" where
  "SetKey k conn = conn\<lparr>dbKey := Some k\<rparr>"

definition addToMetrics :: "Connection \<Rightarrow> Connection \<times> Effect list" where
  "addToMetrics conn =
     (if addedToMetrics conn then (conn, [])
      else (conn\<lparr>addedToMetrics := True\<rparr>, [MetricsAdd (ID conn)]))"

definition DataIsComplete :: "Connection \<Rightarrow> bool" where
  "DataIsComplete conn = dataComplete conn"

definition SaveWhenFinished :: "Connection \<Rightarrow> Connection" where
  "SaveWhenFinished conn = conn\<lparr>saveWhenFinished := True\<rparr>"

definition Save :: "int64 \<Rightarrow> Connection \<Rightarrow> Panic + Connection \<times> Effect list" where
  "Save now conn =
     (let c1 = UpdateMeta now conn
      in if \<not> DataIsComplete c1 then Inr (c1, [])
         else
           (case (if \<not> KeyIsSet c1 then
                    (case process c1 of
                       None \<Rightarrow> Inl NilPointerDereference
                     | Some p \<Rightarrow>
                         if Type c1 = DNSRequest
                         then Inr (SetKey (makeKey (Pid p) dbScopeDNS (ID c1)) c1,
                                   [DnsConnsAdd (ID c1)])
                         else Inr (SetKey (makeKey (Pid p) dbScopeIP (ID c1)) c1,
                                   [ConnsAdd (ID c1)]))
                  else Inr (c1, [])) of
              Inl e \<Rightarrow> Inl e
            | Inr (c2, evs1) \<Rightarrow>
                (case addToMetrics c2 of
                   (c3, evs2) \<Rightarrow> Inr (c3, evs1 @ evs2 @ [PushUpdate c3]))))"

definition delete :: "int64 \<Rightarrow> Connection \<Rightarrow> Connection \<times> Effect list" where
  "delete now conn =
     (let evs1 = (if Type conn = IPConnection then [ConnsDelete (ID conn)]
                  else [DnsConnsDelete (ID conn)]);
          c1 = MetaDelete now conn
      in (c1, evs1 @ (if DataIsComplete c1 then [PushUpdate c1] else [])))"

section \<open>Creating connections\<close>

text \<open>The Go zero value of a \<^verbatim>\<open>Connection\<close>: what a struct literal leaves unset.\<close>

definition zeroConnection :: Connection where
  "zeroConnection =
     \<lparr>dbKey = None, metaModified = 0, metaDeleted = 0,
      ID = [], Type = Undefined, External = False, Scope = [],
      IPVersion = IPVersionUnset, Inbound = False, IPProtocol = 0,
      LocalIP = [], LocalIPScope = ScopeUndefined, LocalPort = 0, PID = 0,
      Entity = None, Resolver = None,
      Verdict = \<lparr>Worst = VerdictUndecided, Active = VerdictUndecided,
                 Firewall = VerdictUndecided\<rparr>,
      Reason = \<lparr>Msg = [], OptionKey = [], Profile = [], Context = None\<rparr>,
      Started = 0, Ended = 0, VerdictPermanent = False, Inspecting = False,
      Tunneled = False, Encrypted = False, TunnelOpts = None,
      ProcessContext =
        \<lparr>pc_ProcessName = [], pc_ProfileName = [], pc_BinaryPath = [], pc_CmdLine = [],
         pc_PID = 0, pc_CreatedAt = 0, pc_Profile = [], pc_Source = []\<rparr>,
      DNSContext = None, TunnelContext = None,
      HistoryEnabled = False, BandwidthEnabled = False,
      BytesReceived = 0, BytesSent = 0,
      pktQueue = None, pktQueueActive = False, dataComplete = False, Internal = False,
      process = None, firewallHandler = None, saveWhenFinished = False,
      activeInspectors = [], inspectorData = [],
      ProfileRevisionCounter = 0, addedToMetrics = False\<rparr>"

text \<open>
  The collaborators the file calls, as they answer during one call: the registry of
  DNS request connections, the process resolver, the access gate, the DNS resolver's
  reverse-IP cache and the network environment. Returned Go errors that the source only
  logs or tests against nil are a flag. \<^verbatim>\<open>process.UndefinedProcessID\<close> is a constant
  of the process package.
\<close>

datatype AccessError = ErrNotLoggedIn | ErrAccessOther

datatype Feature = FeatureHistory | FeatureBWVis

record User =
  features :: "Feature list"

definition MayUse :: "User option \<Rightarrow> Feature \<Rightarrow> bool" where
  "MayUse user f = (case user of None \<Rightarrow> False | Some u \<Rightarrow> f \<in> set (features u))"

record ResolvedDomain =
  rd_Domain :: string
  rd_CNAMEs :: "string list"
  rd_DNSRequestContext :: "payload option"
  rd_Resolver :: "payload option"

record IPInfo =
  MostRecentDomain :: "ResolvedDomain option"

record CaptivePortal =
  portal_IP :: IP
  portal_Domain :: string

record Env =
  UndefinedProcessID :: int
  GetDNSRequestConnection :: "PacketInfo \<Rightarrow> Connection option"
  GetPidOfConnection :: "PacketInfo \<Rightarrow> int \<times> bool"
  GetProcessWithProfile :: "int \<Rightarrow> Process option \<times> bool"
  GetUser :: "User option \<times> AccessError option"
  GetIPScope :: "IP \<Rightarrow> IPScope"
  GetIPInfo :: "string \<Rightarrow> IP \<Rightarrow> IPInfo option"
  GetCaptivePortal :: CaptivePortal

text \<open>\<^verbatim>\<open>net.IP.To4\<close> and \<^verbatim>\<open>net.IP.Equal\<close> of the Go standard library.\<close>

definition v4InV6Prefix :: "nat list" where
  "v4InV6Prefix = [0, 0, 0, 0, 0, 0, 0, 0, 0, 0, 255, 255]"

definition To4 :: "IP \<Rightarrow> IP" where
  "To4 ip =
     (if length ip = 4 then ip
      else if length ip = 16 \<and> take 12 ip = v4InV6Prefix then drop 12 ip
      else [])"

definition IP_Equal :: "IP \<Rightarrow> IP \<Rightarrow> bool" where
  "IP_Equal ip x =
     (if length ip = length x then ip = x
      else if length ip = 4 \<and> length x = 16 then take 12 x = v4InV6Prefix \<and> ip = drop 12 x
      else if length ip = 16 \<and> length x = 4 then take 12 ip = v4InV6Prefix \<and> drop 12 ip = x
      else False)"

definition getProcessContext :: "Process \<Rightarrow> ProcessContext \<times> Effect list" where
  "getProcessContext proc =
     (let pCtx = \<lparr>pc_ProcessName = Name proc, pc_ProfileName = [],
                  pc_BinaryPath = Path proc, pc_CmdLine = CmdLine proc,
                  pc_PID = Pid proc, pc_CreatedAt = CreatedAt proc,
                  pc_Profile = [], pc_Source = []\<rparr>
      in case LocalProfile_of (profile proc) of
           None \<Rightarrow> (pCtx, [Log LvlWarning ''network: process %s has no profile''])
         | Some l \<Rightarrow>
             (pCtx\<lparr>pc_ProfileName := lp_Name l, pc_Profile := lp_ID l,
                    pc_Source := lp_Source l\<rparr>, []))"

text \<open>
  Modelled from the spec: \<^verbatim>\<open>IPScope.IsLocalhost\<close> is declared in the netutils
  package (the flow is localhost-only).
\<close>

definition IsLocalhost :: "IPScope \<Rightarrow> bool" where
  "IsLocalhost sc = (sc = HostLocal)"

definition UpdateFeatures ::
  "Env \<Rightarrow> Connection \<Rightarrow> Panic + AccessError option \<times> Connection" where
  "UpdateFeatures env conn =
     (case GetUser env of
        (user, err) \<Rightarrow>
          if err \<noteq> None \<and> err \<noteq> Some ErrNotLoggedIn then Inr (err, conn)
          else
            (let c1 = conn\<lparr>HistoryEnabled := False\<rparr>
             in case (if Internal c1 then Inr c1
                      else
                        (case Entity c1 of
                           None \<Rightarrow> Inl NilPointerDereference
                         | Some e \<Rightarrow>
                             if IsLocalhost (IPScope e) then Inr c1
                             else if MayUse user FeatureHistory then
                               (case Profile_of (Process c1) of
                                  None \<Rightarrow> Inr c1
                                | Some lProfile \<Rightarrow>
                                    Inr (c1\<lparr>HistoryEnabled := EnableHistory lProfile\<rparr>))
                             else Inr c1)) of
                  Inl e \<Rightarrow> Inl e
                | Inr c2 \<Rightarrow>
                    Inr (None, c2\<lparr>BandwidthEnabled := MayUse user FeatureBWVis\<rparr>)))"

text \<open>
  \<^verbatim>\<open>tooOldTimestamp\<close> is \<^verbatim>\<open>time.Date(2020, 1, 1, 0, 0, 0, 0, time.UTC).Unix()\<close>: from
  1970 to 2020 there are 50 years, 12 of them leap years.
\<close>

definition tooOldTimestamp :: int64 where
  "tooOldTimestamp = (50 * 365 + 12) * 86400"

text \<open>
  \<open>now\<close> is the clock reading \<^verbatim>\<open>time.Now().Unix()\<close> of the timestamp fallback and
  \<open>metaNow\<close> the one of \<^verbatim>\<open>UpdateMeta\<close>.
\<close>

definition NewIncompleteConnection ::
  "int64 \<Rightarrow> int64 \<Rightarrow> Packet \<Rightarrow> Connection \<times> Effect list" where
  "NewIncompleteConnection now metaNow pkt =
     (let info = Info pkt;
          c0 = zeroConnection\<lparr>ID := GetConnectionID pkt, Type := IPConnection,
                              IPVersion := pi_Version info, IPProtocol := pi_Protocol info,
                              Started := pi_SeenAt info, PID := pi_PID info,
                              dataComplete := False\<rparr>;
          c1 = (if Started c0 < tooOldTimestamp then c0\<lparr>Started := now\<rparr> else c0);
          c2 = UpdateMeta metaNow c1
      in (c2, [ConnsAdd (ID c2)]))"

text \<open>
  The switch of \<^verbatim>\<open>NewConnectionFromDNSRequest\<close> that decides whether the packet info
  and the process are taken over from a reported DNS request connection. It yields the
  packet info, the process reference and the log lines.
\<close>

definition inheritDNSRequestConn ::
  "Env \<Rightarrow> int64 \<Rightarrow> PacketInfo \<Rightarrow> PacketInfo \<times> Process option \<times> Effect list" where
  "inheritDNSRequestConn env now pi =
     (case GetDNSRequestConnection env pi of
        None \<Rightarrow> (pi, None, [])
      | Some dnsRequestConn \<Rightarrow>
          if PID dnsRequestConn < 0 then (pi, None, [])
          else if Ended dnsRequestConn > 0 \<and> Ended dnsRequestConn < wrap_int64 (now - 3)
          then (pi, None,
                [Log LvlDebug
                   ''network: found ended dns request connection %s for dns request for %s''])
          else (pi\<lparr>pi_PID := PID dnsRequestConn\<rparr>, process dnsRequestConn,
                [Log LvlDebug ''network: found matching dns request connection %s'']))"

text \<open>
  The packet info that \<^verbatim>\<open>NewConnectionFromDNSRequest\<close> creates for the DNS request
  connection: outbound UDP from the local address, no destination, no PID. The zero
  \<^verbatim>\<open>time.Time\<close> left in SeenAt has the Unix time -62135596800.
\<close>

definition dnsPacketInfo :: "Env \<Rightarrow> IP \<Rightarrow> nat \<Rightarrow> PacketInfo" where
  "dnsPacketInfo env localIP localPort =
     (let ipVersion = (if To4 localIP \<noteq> [] then IPv4 else IPv6)
      in \<lparr>pi_Inbound = False, pi_Version = ipVersion, pi_Protocol = UDP,
          pi_Src = localIP, pi_SrcPort = localPort, pi_Dst = [], pi_DstPort = 0,
          pi_PID = UndefinedProcessID env, pi_SeenAt = - 62135596800\<rparr>)"

text \<open>
  \<open>now\<close> is the clock reading inside the switch, \<open>timestamp\<close> the one taken for
  Started and Ended, \<open>metaNow\<close> the one of \<^verbatim>\<open>UpdateMeta\<close>.
\<close>

definition NewConnectionFromDNSRequest ::
  "Env \<Rightarrow> int64 \<Rightarrow> int64 \<Rightarrow> int64 \<Rightarrow> string \<Rightarrow> string list \<Rightarrow> string \<Rightarrow> IP \<Rightarrow> nat
     \<Rightarrow> Panic + Connection \<times> Effect list" where
  "NewConnectionFromDNSRequest env now timestamp metaNow fqdn cnames connID localIP localPort =
     (let pi0 = dnsPacketInfo env localIP localPort
      in case inheritDNSRequestConn env now pi0 of
           (pi1, proc1, evs1) \<Rightarrow>
             (let pi2 = (if pi_PID pi1 = UndefinedProcessID env
                         then pi1\<lparr>pi_PID := fst (GetPidOfConnection env pi1)\<rparr> else pi1);
                  proc2 = (if proc1 = None then fst (GetProcessWithProfile env (pi_PID pi2))
                           else proc1)
              in case proc2 of
                   None \<Rightarrow> Inl NilPointerDereference
                 | Some proc \<Rightarrow>
                     (case getProcessContext proc of
                        (pCtx, evs2) \<Rightarrow>
                          (let dnsConn =
                                 zeroConnection\<lparr>ID := connID, Type := DNSRequest, Scope := fqdn,
                                   PID := Pid proc,
                                   Entity := Some \<lparr>IP = [], Protocol = 0, Port = 0,
                                                   Domain = fqdn, CNAME = cnames,
                                                   IPScope = Global, dstPort = 0\<rparr>,
                                   process := Some proc, ProcessContext := pCtx,
                                   Started := timestamp, Ended := timestamp,
                                   dataComplete := True\<rparr>
                           in case LocalProfile_of (Profile_of (Some proc)) of
                                None \<Rightarrow> Inr (UpdateMeta metaNow dnsConn, evs1 @ evs2)
                              | Some l \<Rightarrow>
                                  (case UpdateFeatures env
                                          (dnsConn\<lparr>Internal := lp_Internal l\<rparr>) of
                                     Inl e \<Rightarrow> Inl e
                                   | Inr (err, c) \<Rightarrow>
                                       Inr (UpdateMeta metaNow c,
                                            evs1 @ evs2 @
                                            (if err \<noteq> None \<and> err \<noteq> Some ErrNotLoggedIn
                                             then [Log LvlWarning
                                                     ''network: failed to check for enabled features: %s'']
                                             else [])))))))"

section \<open>Gathering connection information\<close>

text \<open>
  Modelled from the spec: the scope tags, the resolver's global scope and
  \<^verbatim>\<open>Entity.Init\<close> are declared in other files and packages. A tag's name stands for its
  value; \<^verbatim>\<open>Init\<close> classifies the entity's IP and remembers the destination port.
  \<^verbatim>\<open>RevisionCnt()\<close> is called on the process's profile before any nil check, so it is
  nil-safe here like \<^verbatim>\<open>Profile()\<close>.
\<close>

definition IncomingHost :: string where "IncomingHost = ''IncomingHost''"
definition IncomingLAN :: string where "IncomingLAN = ''IncomingLAN''"
definition IncomingInternet :: string where "IncomingInternet = ''IncomingInternet''"
definition IncomingInvalid :: string where "IncomingInvalid = ''IncomingInvalid''"
definition PeerHost :: string where "PeerHost = ''PeerHost''"
definition PeerLAN :: string where "PeerLAN = ''PeerLAN''"
definition PeerInternet :: string where "PeerInternet = ''PeerInternet''"
definition PeerInvalid :: string where "PeerInvalid = ''PeerInvalid''"

definition IPInfoProfileScopeGlobal :: string where
  "IPInfoProfileScopeGlobal = ''IPInfoProfileScopeGlobal''"

definition Init :: "Env \<Rightarrow> nat \<Rightarrow> Entity \<Rightarrow> Entity" where
  "Init env port e = e\<lparr>IPScope := GetIPScope env (IP e), dstPort := port\<rparr>"

definition RevisionCnt_of :: "LayeredProfile option \<Rightarrow> nat" where
  "RevisionCnt_of l = (case l of None \<Rightarrow> 0 | Some lay \<Rightarrow> RevisionCnt lay)"

definition SetLocalIP :: "Env \<Rightarrow> IP \<Rightarrow> Connection \<Rightarrow> Connection" where
  "SetLocalIP env ip conn = conn\<lparr>LocalIP := ip, LocalIPScope := GetIPScope env ip\<rparr>"

text \<open>Lines 438 to 481: create the remote entity and derive the scope.\<close>

definition gatherEntity :: "Env \<Rightarrow> Packet \<Rightarrow> Connection \<Rightarrow> Connection" where
  "gatherEntity env pkt conn =
     (if Entity conn = None then
        (let e = Init env (pi_DstPort (Info pkt))
                   \<lparr>IP = RemoteIP (Info pkt), Protocol = pi_Protocol (Info pkt),
                    Port = RemotePort (Info pkt), Domain = [], CNAME = [],
                    IPScope = ScopeUndefined, dstPort = 0\<rparr>;
             c1 = conn\<lparr>Entity := Some e\<rparr>;
             c2 = SetLocalIP env (LocalIP_of (Info pkt)) c1;
             c3 = c2\<lparr>LocalPort := LocalPort_of (Info pkt)\<rparr>
         in if Inbound c3 then
              (case IPScope e of
                 HostLocal \<Rightarrow> c3\<lparr>Scope := IncomingHost\<rparr>
               | LinkLocal \<Rightarrow> c3\<lparr>Scope := IncomingLAN\<rparr>
               | SiteLocal \<Rightarrow> c3\<lparr>Scope := IncomingLAN\<rparr>
               | LocalMulticast \<Rightarrow> c3\<lparr>Scope := IncomingLAN\<rparr>
               | Global \<Rightarrow> c3\<lparr>Scope := IncomingInternet\<rparr>
               | GlobalMulticast \<Rightarrow> c3\<lparr>Scope := IncomingInternet\<rparr>
               | ScopeUndefined \<Rightarrow> c3\<lparr>Scope := IncomingInvalid\<rparr>
               | ScopeInvalid \<Rightarrow> c3\<lparr>Scope := IncomingInvalid\<rparr>)
            else
              (case IPScope e of
                 HostLocal \<Rightarrow> c3\<lparr>Scope := PeerHost\<rparr>
               | LinkLocal \<Rightarrow> c3\<lparr>Scope := PeerLAN\<rparr>
               | SiteLocal \<Rightarrow> c3\<lparr>Scope := PeerLAN\<rparr>
               | LocalMulticast \<Rightarrow> c3\<lparr>Scope := PeerLAN\<rparr>
               | Global \<Rightarrow> c3\<lparr>Scope := PeerInternet\<rparr>
               | GlobalMulticast \<Rightarrow> c3\<lparr>Scope := PeerInternet\<rparr>
               | ScopeUndefined \<Rightarrow> c3\<lparr>Scope := PeerInvalid\<rparr>
               | ScopeInvalid \<Rightarrow> c3\<lparr>Scope := PeerInvalid\<rparr>))
      else conn)"

text \<open>Lines 483 to 489: get the PID if not yet available.\<close>

definition gatherPID :: "Env \<Rightarrow> Packet \<Rightarrow> Connection \<Rightarrow> Connection" where
  "gatherPID env pkt conn =
     (if PID conn = UndefinedProcessID env then
        (case GetPidOfConnection env (Info pkt) of
           (pid, inbound) \<Rightarrow> conn\<lparr>PID := pid, Inbound := inbound\<rparr>)
      else conn)"

text \<open>Lines 497 to 509: get process and profile.\<close>

definition gatherProcess :: "Env \<Rightarrow> Packet \<Rightarrow> Connection \<Rightarrow> Connection \<times> Effect list" where
  "gatherProcess env pkt conn =
     (if process conn = None then
        (case GetProcessWithProfile env (PID conn) of
           (p, err) \<Rightarrow>
             (let c1 = conn\<lparr>process := p\<rparr>
              in if err then
                   (if InfoOnly pkt
                    then (c1\<lparr>process := None\<rparr>,
                          [Log LvlDebug
                             ''network: failed to get process and profile of PID %d: %s''])
                    else (c1,
                          [Log LvlWarning
                             ''network: failed to get process and profile of PID %d: %s'']))
                 else (c1, [])))
      else (conn, []))"

text \<open>Lines 511 to 525: apply process and profile information to the connection.\<close>

definition gatherProfile ::
  "Env \<Rightarrow> Connection \<Rightarrow> Panic + Connection \<times> Effect list" where
  "gatherProfile env conn =
     (case process conn of
        None \<Rightarrow> Inr (conn, [])
      | Some p \<Rightarrow>
          if ProfileRevisionCounter conn = 0 then
            (case getProcessContext p of
               (pCtx, evs) \<Rightarrow>
                 (let c1 = conn\<lparr>ProcessContext := pCtx\<rparr>;
                      c2 = c1\<lparr>ProfileRevisionCounter := RevisionCnt_of (Profile_of (Some p))\<rparr>
                  in case LocalProfile_of (Profile_of (Some p)) of
                       None \<Rightarrow> Inr (c2, evs)
                     | Some l \<Rightarrow>
                         (case UpdateFeatures env (c2\<lparr>Internal := lp_Internal l\<rparr>) of
                            Inl e \<Rightarrow> Inl e
                          | Inr (err, c3) \<Rightarrow>
                              Inr (c3,
                                   evs @
                                   (if err \<noteq> None \<and> err \<noteq> Some ErrNotLoggedIn
                                    then [Log LvlWarning
                                            ''network: connection %s failed to check for enabled features: %s'']
                                    else [])))))
          else Inr (conn, []))"

text \<open>
  Lines 527 to 546: find domain and DNS context of the entity. The cache is asked with
  the remote IP (its string form in the source).
\<close>

definition gatherDomain ::
  "Env \<Rightarrow> Packet \<Rightarrow> Connection \<Rightarrow> Panic + Connection \<times> Effect list" where
  "gatherDomain env pkt conn =
     (case Entity conn of
        None \<Rightarrow> Inl NilPointerDereference
      | Some e \<Rightarrow>
          if Domain e = [] \<and> Profile_of (process conn) \<noteq> None then
            (case LocalProfile_of (Profile_of (process conn)) of
               None \<Rightarrow> Inl NilPointerDereference
             | Some l \<Rightarrow>
                 (let ipinfo =
                        (case GetIPInfo env (lp_ID l) (RemoteIP (Info pkt)) of
                           None \<Rightarrow> GetIPInfo env IPInfoProfileScopeGlobal (RemoteIP (Info pkt))
                         | Some i \<Rightarrow> Some i)
                  in case ipinfo of
                       None \<Rightarrow> Inr (conn, [])
                     | Some i \<Rightarrow>
                         (case MostRecentDomain i of
                            None \<Rightarrow> Inr (conn, [])
                          | Some lastResolvedDomain \<Rightarrow>
                              (case process conn of
                                 None \<Rightarrow> Inl NilPointerDereference
                               | Some p \<Rightarrow>
                                   Inr (conn\<lparr>Scope := rd_Domain lastResolvedDomain,
                                          Entity :=
                                            Some (e\<lparr>Domain := rd_Domain lastResolvedDomain,
                                                    CNAME := rd_CNAMEs lastResolvedDomain\<rparr>),
                                          DNSContext := rd_DNSRequestContext lastResolvedDomain,
                                          Resolver := rd_Resolver lastResolvedDomain\<rparr>,
                                        [RemoveOpenDNSRequest (Pid p)
                                           (rd_Domain lastResolvedDomain)])))))
          else Inr (conn, []))"

text \<open>Lines 548 to 555: check if the destination IP is the captive portal's IP.\<close>

definition gatherCaptivePortal :: "Env \<Rightarrow> Packet \<Rightarrow> Connection \<Rightarrow> Panic + Connection" where
  "gatherCaptivePortal env pkt conn =
     (case Entity conn of
        None \<Rightarrow> Inl NilPointerDereference
      | Some e \<Rightarrow>
          if Domain e = [] then
            (let portal = GetCaptivePortal env
             in if IP_Equal (RemoteIP (Info pkt)) (portal_IP portal)
                then Inr (conn\<lparr>Scope := portal_Domain portal,
                            Entity := Some (e\<lparr>Domain := portal_Domain portal\<rparr>)\<rparr>)
                else Inr conn)
          else Inr conn)"

text \<open>Lines 557 to 570: check if all data required for a complete packet is there.\<close>

definition checkComplete :: "Packet \<Rightarrow> Connection \<Rightarrow> Connection" where
  "checkComplete pkt conn =
     (if InfoOnly pkt then conn
      else if process conn = None then conn
      else if Profile_of (process conn) = None then conn
      else if Entity conn = None then conn
      else conn\<lparr>dataComplete := True\<rparr>)"

definition GatherConnectionInfo ::
  "Env \<Rightarrow> Packet \<Rightarrow> Connection \<Rightarrow> Panic + Connection \<times> Effect list" where
  "GatherConnectionInfo env pkt conn =
     (let c1 = gatherEntity env pkt conn;
          c2 = gatherPID env pkt c1
      in if InfoOnly pkt then Inr (c2, [])
         else
           (case gatherProcess env pkt c2 of
              (c3, evs1) \<Rightarrow>
                (case gatherProfile env c3 of
                   Inl e \<Rightarrow> Inl e
                 | Inr (c4, evs2) \<Rightarrow>
                     (case gatherDomain env pkt c4 of
                        Inl e \<Rightarrow> Inl e
                      | Inr (c5, evs3) \<Rightarrow>
                          (case gatherCaptivePortal env pkt c5 of
                             Inl e \<Rightarrow> Inl e
                           | Inr c6 \<Rightarrow>
                               Inr (checkComplete pkt c6, evs1 @ evs2 @ evs3))))))"

section \<open>Concrete inputs\<close>

text \<open>
  The outbound web flow of the spec's scenarios: a process with a profile, a real TCP
  packet from 192.168.1.10:44321 to 93.184.216.34:443 seen at 1700000000, and
  collaborators that know the process but no domain and no logged-in user.
\<close>

definition exLocalProfile :: LocalProfile where
  "exLocalProfile =
     \<lparr>lp_ID = ''app-7'', lp_Name = ''App'', lp_Source = ''local'', lp_Internal = False\<rparr>"

definition exLayeredProfile :: LayeredProfile where
  "exLayeredProfile =
     \<lparr>localProfile = Some exLocalProfile, RevisionCnt = 1, EnableHistory = True,
      GetProfileSource = (\<lambda>k. ''local/app-7'')\<rparr>"

definition exProcess :: Process where
  "exProcess =
     \<lparr>Name = ''curl'', Path = ''/usr/bin/curl'', CmdLine = ''curl example.com'',
      Pid = 4711, CreatedAt = 1699999000, profile = Some exLayeredProfile\<rparr>"

definition exPacket :: Packet where
  "exPacket =
     \<lparr>Info = \<lparr>pi_Inbound = False, pi_Version = IPv4, pi_Protocol = 6,
              pi_Src = [192, 168, 1, 10], pi_SrcPort = 44321,
              pi_Dst = [93, 184, 216, 34], pi_DstPort = 443,
              pi_PID = 4711, pi_SeenAt = 1700000000\<rparr>,
      GetConnectionID = ''6-192.168.1.10-44321-93.184.216.34-443'',
      InfoOnly = False, ExpectInfo = False\<rparr>"

definition exEnv :: Env where
  "exEnv =
     \<lparr>UndefinedProcessID = - 1,
      GetDNSRequestConnection = (\<lambda>i. None),
      GetPidOfConnection = (\<lambda>i. (pi_PID i, pi_Inbound i)),
      GetProcessWithProfile = (\<lambda>pid. (Some exProcess, False)),
      GetUser = (None, Some ErrNotLoggedIn),
      GetIPScope = (\<lambda>ip. Global),
      GetIPInfo = (\<lambda>scope ip. None),
      GetCaptivePortal = \<lparr>portal_IP = [], portal_Domain = []\<rparr>\<rparr>"

text \<open>A connection whose queue holds 100 packets, and a reported DNS request connection.\<close>

definition exFullConnection :: Connection where
  "exFullConnection =
     zeroConnection\<lparr>pktQueue := Some \<lparr>chan_cap = 100, chan_buf = replicate 100 exPacket,
                                        chan_closed = False\<rparr>,
                     pktQueueActive := True, firewallHandler := Some 1\<rparr>"

definition exDefaultHandler :: "Connection \<Rightarrow> Packet \<Rightarrow> Connection \<times> Effect list" where
  "exDefaultHandler conn pkt = (conn, [])"

definition exDNSRequestConn :: "int64 \<Rightarrow> Connection" where
  "exDNSRequestConn ended =
     zeroConnection\<lparr>Type := DNSRequest, PID := 4711, Ended := ended,
                     process := Some exProcess, dataComplete := True\<rparr>"

definition exDNSEnv :: "int64 \<Rightarrow> Env" where
  "exDNSEnv ended = exEnv\<lparr>GetDNSRequestConnection := (\<lambda>i. Some (exDNSRequestConn ended))\<rparr>"

text \<open>
  The spec's reading of a live DNS request entry, to compare with the code: Ended is 0,
  or Ended is not older than 3 seconds.
\<close>

definition spec_live :: "int64 \<Rightarrow> int64 \<Rightarrow> bool" where
  "spec_live now ended = (ended = 0 \<or> now - 3 \<le> ended)"

section \<open>Verdict assignments\<close>

lemma call_Verdict:
  "Verdict (call c conn) = (Verdict conn)\<lparr>Firewall := spec_assigned conn c\<rparr>"
  by (cases c)
     (simp_all add: Accept_def AcceptWithContext_def Block_def BlockWithContext_def
        Drop_def DropWithContext_def Deny_def DenyWithContext_def Failed_def
        FailedWithContext_def SetVerdict_def SetVerdictDirectly_def Let_def)

lemma call_Inbound: "Inbound (call c conn) = Inbound conn"
  by (cases c)
     (simp_all add: Accept_def AcceptWithContext_def Block_def BlockWithContext_def
        Drop_def DropWithContext_def Deny_def DenyWithContext_def Failed_def
        FailedWithContext_def SetVerdict_def SetVerdictDirectly_def Let_def)

lemma calls_Inbound: "Inbound (calls cs conn) = Inbound conn"
  by (induction cs arbitrary: conn) (simp_all add: call_Inbound)

lemma calls_append: "calls (cs @ ds) conn = calls ds (calls cs conn)"
  by (induction cs arbitrary: conn) simp_all

lemma calls_Worst_Active:
  "Worst (Verdict (calls cs conn)) = Worst (Verdict conn) \<and>
   Active (Verdict (calls cs conn)) = Active (Verdict conn)"
  by (induction cs arbitrary: conn) (simp_all add: call_Verdict)

lemma spec_assigned_Inbound:
  "Inbound c1 = Inbound c2 \<Longrightarrow> spec_assigned c1 c = spec_assigned c2 c"
  by (cases c) simp_all

text \<open>
  C1, as the code has it: every sequence of verdict assignments (Accept, Block, Drop,
  Deny, Failed, SetVerdict, SetVerdictDirectly) leaves Verdict.Worst and Verdict.Active
  as they were, and Verdict.Firewall holds the verdict of the most recent assignment.
\<close>

theorem C1_calls_write_Firewall_only:
  "Worst (Verdict (calls cs conn)) = Worst (Verdict conn) \<and>
   Active (Verdict (calls cs conn)) = Active (Verdict conn) \<and>
   Firewall (Verdict (calls (cs @ [c]) conn)) = spec_assigned conn c"
proof -
  have "Firewall (Verdict (calls (cs @ [c]) conn)) = spec_assigned (calls cs conn) c"
    by (simp add: calls_append call_Verdict)
  also have "\<dots> = spec_assigned conn c"
    by (rule spec_assigned_Inbound) (rule calls_Inbound)
  finally show ?thesis
    by (simp add: calls_Worst_Active)
qed

text \<open>
  After Accept and Failed on a fresh connection Worst is still Undecided; a Deny that
  follows them on an inbound connection leaves Firewall at Drop.
\<close>

theorem C1_calls_write_Firewall_only_witness:
  "Worst (Verdict (calls [CallAccept ''ok'' [], CallFailed ''err'' []] zeroConnection))
     = VerdictUndecided \<and>
   Firewall (Verdict (calls ([CallAccept ''ok'' [], CallFailed ''err'' []] @ [CallDeny ''no'' []])
     (zeroConnection\<lparr>Inbound := True\<rparr>))) = VerdictDrop"
  using C1_calls_write_Firewall_only
          [of "[CallAccept ''ok'' [], CallFailed ''err'' []]" zeroConnection]
        C1_calls_write_Firewall_only
          [of "[CallAccept ''ok'' [], CallFailed ''err'' []]"
              "zeroConnection\<lparr>Inbound := True\<rparr>" "CallDeny ''no'' []"]
  by (simp add: zeroConnection_def)

text \<open>
  C1 as stated fails: after one Block on a fresh connection, Worst is not the maximum
  of the verdicts assigned, and Worst is below Firewall in the severity order.
\<close>

theorem C1_worst_is_max_counterexample:
  "Worst (Verdict (calls [CallBlock ''blocked'' []] zeroConnection))
     \<noteq> spec_Worst zeroConnection [CallBlock ''blocked'' []] \<and>
   severity (Worst (Verdict (calls [CallBlock ''blocked'' []] zeroConnection)))
     < severity (Firewall (Verdict (calls [CallBlock ''blocked'' []] zeroConnection)))"
  by (simp add: Block_def BlockWithContext_def SetVerdict_def SetVerdictDirectly_def
        Let_def zeroConnection_def worse_def)

text \<open>
  C6: Deny and DenyWithContext set Verdict.Firewall to Drop on an inbound connection and
  to Block on an outbound one, and to no other verdict.
\<close>

theorem C6_Deny_direction:
  "Firewall (Verdict (fst (DenyWithContext reason reasonOptionKey ctx conn)))
     = (if Inbound conn then VerdictDrop else VerdictBlock) \<and>
   Firewall (Verdict (fst (Deny reason reasonOptionKey conn)))
     = (if Inbound conn then VerdictDrop else VerdictBlock)"
  by (simp add: Deny_def DenyWithContext_def DropWithContext_def BlockWithContext_def
        SetVerdict_def SetVerdictDirectly_def Let_def)

theorem C6_Deny_direction_witness:
  "Firewall (Verdict (fst (Deny ''denied'' [] (zeroConnection\<lparr>Inbound := True\<rparr>))))
     = VerdictDrop \<and>
   Firewall (Verdict (fst (Deny ''denied'' [] (zeroConnection\<lparr>Inbound := False\<rparr>))))
     = VerdictBlock"
  using C6_Deny_direction [of "''denied''" "[]" None "zeroConnection\<lparr>Inbound := True\<rparr>"]
        C6_Deny_direction [of "''denied''" "[]" None "zeroConnection\<lparr>Inbound := False\<rparr>"]
  by simp

text \<open>
  C8, as the code has it: SetVerdict replaces the Reason wholesale. Msg and Context are
  the arguments; OptionKey and Profile are empty unless a non-empty option key is given
  and the connection's process has a profile, in which case OptionKey is the argument and
  Profile is what the profile names as the source of that option.
\<close>

theorem C8_SetVerdict_Reason:
  "Reason (snd (SetVerdict newVerdict reason reasonOptionKey reasonCtx conn)) =
     (case Profile_of (process conn) of
        None \<Rightarrow> \<lparr>Msg = reason, OptionKey = [], Profile = [], Context = reasonCtx\<rparr>
      | Some lp \<Rightarrow>
          if reasonOptionKey \<noteq> []
          then \<lparr>Msg = reason, OptionKey = reasonOptionKey,
                Profile = GetProfileSource lp reasonOptionKey, Context = reasonCtx\<rparr>
          else \<lparr>Msg = reason, OptionKey = [], Profile = [], Context = reasonCtx\<rparr>)"
  by (simp add: SetVerdict_def SetVerdictDirectly_def Process_def Let_def
           split: option.splits)

theorem C8_SetVerdict_Reason_witness:
  "Reason (snd (SetVerdict VerdictBlock ''blocked'' ''filter/defaultAction'' (Some ''ctx'')
     (zeroConnection\<lparr>process := Some exProcess\<rparr>))) =
     \<lparr>Msg = ''blocked'', OptionKey = ''filter/defaultAction'', Profile = ''local/app-7'',
      Context = Some ''ctx''\<rparr>"
  using C8_SetVerdict_Reason [of VerdictBlock "''blocked''" "''filter/defaultAction''"
          "Some ''ctx''" "zeroConnection\<lparr>process := Some exProcess\<rparr>"]
  by (simp add: Profile_of_def exProcess_def exLayeredProfile_def)

text \<open>
  C8 as stated fails: with a non-empty option key and a connection whose process is not
  known, OptionKey stays cleared.
\<close>

theorem C8_reassigned_iff_key_counterexample:
  "''filter/defaultAction'' \<noteq> [] \<and>
   OptionKey (Reason (snd (SetVerdict VerdictBlock ''blocked'' ''filter/defaultAction'' None
     zeroConnection))) = []"
  by (simp add: SetVerdict_def SetVerdictDirectly_def Process_def Profile_of_def Let_def
        zeroConnection_def)

text \<open>
  C9: calling Accept twice in succession with the same reason and option key leaves the
  Reason as a single call does.
\<close>

theorem C9_Accept_idempotent:
  "Reason (fst (Accept reason reasonOptionKey (fst (Accept reason reasonOptionKey conn))))
     = Reason (fst (Accept reason reasonOptionKey conn))"
  by (simp add: Accept_def AcceptWithContext_def SetVerdict_def SetVerdictDirectly_def
        Process_def Let_def split: option.splits)

theorem C9_Accept_idempotent_witness:
  "Reason (fst (Accept ''ok'' ''filter/defaultAction''
     (fst (Accept ''ok'' ''filter/defaultAction'' (zeroConnection\<lparr>process := Some exProcess\<rparr>)))))
     = \<lparr>Msg = ''ok'', OptionKey = ''filter/defaultAction'', Profile = ''local/app-7'',
        Context = None\<rparr>"
  using C9_Accept_idempotent [of "''ok''" "''filter/defaultAction''"
          "zeroConnection\<lparr>process := Some exProcess\<rparr>"]
  by (simp add: Accept_def AcceptWithContext_def SetVerdict_def SetVerdictDirectly_def
        Process_def Profile_of_def Let_def exProcess_def exLayeredProfile_def)

section \<open>The packet queue\<close>

lemma queue_inv_zeroConnection: "queue_inv zeroConnection"
  by (simp add: queue_inv_def zeroConnection_def)

lemma queue_inv_SetFirewallHandler:
  "queue_inv conn \<Longrightarrow> queue_inv (fst (SetFirewallHandler handler conn))"
  by (cases handler; cases "pktQueueActive conn")
     (simp_all add: SetFirewallHandler_def queue_inv_def Let_def)

lemma SetFirewallHandler_activates:
  "queue_inv conn \<Longrightarrow> pktQueueActive (fst (SetFirewallHandler (Some h) conn))"
  by (cases "pktQueueActive conn")
     (simp_all add: SetFirewallHandler_def queue_inv_def Let_def)

lemma queue_inv_StopFirewallHandler:
  "queue_inv conn \<Longrightarrow>
     (case StopFirewallHandler conn of
        Inl e \<Rightarrow> False
      | Inr (c, evs) \<Rightarrow> queue_inv c \<and> \<not> pktQueueActive c \<and> pktQueue c = None)"
  by (cases "pktQueueActive conn"; cases "pktQueue conn")
     (simp_all add: StopFirewallHandler_def queue_inv_def Let_def)

text \<open>
  C2: on a connection whose queue is active (made by SetFirewallHandler: capacity 100,
  open), HandlePacket returns. At most 100 packets are buffered. While there is room the
  packet is appended to the queue and nothing else changes; when the queue is full the
  connection is unchanged, a debug line is logged and the packet's Drop is invoked.
\<close>

theorem C2_HandlePacket_never_blocks:
  assumes "pktQueueActive conn" and "queue_inv conn"
  shows "\<exists>conn' evs. HandlePacket dfh conn pkt = Inr (conn', evs) \<and>
           queue_inv conn' \<and> length (queued conn') \<le> 100 \<and>
           (if length (queued conn) < 100
            then conn' = conn\<lparr>pktQueue := pktQueue conn'\<rparr> \<and>
                 queued conn' = queued conn @ [pkt] \<and> evs = []
            else conn' = conn \<and>
                 evs = [Log LvlDebug
                          ''filter: dropping packet %s, as there is no space in the connection's handling queue'',
                        PktDrop pkt])"
proof -
  from assms obtain ch where ch: "pktQueue conn = Some ch" "chan_cap ch = 100"
      "\<not> chan_closed ch" "length (chan_buf ch) \<le> 100"
    by (auto simp add: queue_inv_def split: option.splits)
  show ?thesis
  proof (cases "length (chan_buf ch) < 100")
    case True
    with assms ch show ?thesis
      by (simp add: HandlePacket_def queue_inv_def queued_def)
  next
    case False
    with assms ch show ?thesis
      by (simp add: HandlePacket_def queue_inv_def queued_def)
  qed
qed

text \<open>The 101st packet offered to a full queue.\<close>

theorem C2_HandlePacket_never_blocks_witness:
  "pktQueueActive exFullConnection \<and> queue_inv exFullConnection \<and>
   HandlePacket exDefaultHandler exFullConnection exPacket =
     Inr (exFullConnection,
          [Log LvlDebug
             ''filter: dropping packet %s, as there is no space in the connection's handling queue'',
           PktDrop exPacket])"
proof -
  have a: "pktQueueActive exFullConnection"
    by (simp add: exFullConnection_def)
  have b: "queue_inv exFullConnection"
    by (simp add: exFullConnection_def queue_inv_def)
  have c: "\<not> length (queued exFullConnection) < 100"
    by (simp add: exFullConnection_def queued_def)
  from C2_HandlePacket_never_blocks [OF a b, of exDefaultHandler exPacket] c a b show ?thesis
    by auto
qed

text \<open>
  C10: SetFirewallHandler with a nil handler returns the connection as it was, every
  field included, and starts no worker.
\<close>

theorem C10_SetFirewallHandler_nil:
  "SetFirewallHandler None conn = (conn, [])"
  by (simp add: SetFirewallHandler_def)

theorem C10_SetFirewallHandler_nil_witness:
  "SetFirewallHandler None exFullConnection = (exFullConnection, []) \<and>
   SetFirewallHandler None zeroConnection = (zeroConnection, [])"
  using C10_SetFirewallHandler_nil [of exFullConnection]
        C10_SetFirewallHandler_nil [of zeroConnection]
  by simp

section \<open>Saving, deleting and creating\<close>

text \<open>
  C4: Save on a connection whose data is not complete only refreshes the metadata: no
  insert, no metrics, no push. Whenever Save pushes an update the data is complete, and
  delete pushes an update exactly when the data is complete.
\<close>

theorem C4_push_only_when_complete:
  "(\<not> DataIsComplete conn \<longrightarrow> Save now conn = Inr (UpdateMeta now conn, [])) \<and>
   (\<forall>c evs. Save now conn = Inr (c, evs) \<and> list_ex is_PushUpdate evs
              \<longrightarrow> DataIsComplete conn) \<and>
   (list_ex is_PushUpdate (snd (delete now conn)) \<longleftrightarrow> DataIsComplete conn)"
proof (intro conjI allI impI)
  assume "\<not> DataIsComplete conn"
  then show "Save now conn = Inr (UpdateMeta now conn, [])"
    by (simp add: Save_def DataIsComplete_def UpdateMeta_def)
next
  fix c evs
  assume "Save now conn = Inr (c, evs) \<and> list_ex is_PushUpdate evs"
  then show "DataIsComplete conn"
    by (cases "DataIsComplete conn")
       (auto simp add: Save_def DataIsComplete_def UpdateMeta_def)
next
  show "list_ex is_PushUpdate (snd (delete now conn)) \<longleftrightarrow> DataIsComplete conn"
    by (simp add: delete_def DataIsComplete_def MetaDelete_def Let_def)
qed

theorem C4_push_only_when_complete_witness:
  "\<not> DataIsComplete zeroConnection \<and>
   Save 1700000000 zeroConnection = Inr (UpdateMeta 1700000000 zeroConnection, []) \<and>
   \<not> list_ex is_PushUpdate (snd (delete 1700000000 zeroConnection)) \<and>
   list_ex is_PushUpdate (snd (delete 1700000000 (exDNSRequestConn 0)))"
  using C4_push_only_when_complete [of zeroConnection 1700000000]
        C4_push_only_when_complete [of "exDNSRequestConn 0" 1700000000]
  by (simp add: DataIsComplete_def zeroConnection_def exDNSRequestConn_def)

text \<open>
  C7, as the code has it: Started is the packet's SeenAt in epoch seconds unless that is
  before 2020-01-01T00:00:00Z (1577836800), in which case Started is the current time;
  so Started is not before 2020-01-01 whenever the current time is not.
\<close>

theorem C7_Started:
  "Started (fst (NewIncompleteConnection now metaNow pkt))
     = (if pi_SeenAt (Info pkt) < 1577836800 then now else pi_SeenAt (Info pkt)) \<and>
   (1577836800 \<le> now \<longrightarrow>
      1577836800 \<le> Started (fst (NewIncompleteConnection now metaNow pkt)))"
  by (simp add: NewIncompleteConnection_def UpdateMeta_def tooOldTimestamp_def Let_def
        zeroConnection_def)

theorem C7_Started_witness:
  "(1577836800 :: int) \<le> 1700000100 \<and>
   Started (fst (NewIncompleteConnection 1700000100 1700000100 exPacket)) = 1700000000 \<and>
   Started (fst (NewIncompleteConnection 1700000100 1700000100
     (exPacket\<lparr>Info := (Info exPacket)\<lparr>pi_SeenAt := - 62135596800\<rparr>\<rparr>))) = 1700000100"
  using C7_Started [of 1700000100 1700000100 exPacket]
        C7_Started [of 1700000100 1700000100
                       "exPacket\<lparr>Info := (Info exPacket)\<lparr>pi_SeenAt := - 62135596800\<rparr>\<rparr>"]
  by (simp add: exPacket_def)

text \<open>
  C7 as stated fails: a packet without a SeenAt timestamp, on a host whose clock reads
  2000-01-01T00:00:00Z (946684800), gives a connection that started before 2020.
\<close>

theorem C7_Started_not_before_2020_counterexample:
  "Started (fst (NewIncompleteConnection 946684800 946684800
     (exPacket\<lparr>Info := (Info exPacket)\<lparr>pi_SeenAt := - 62135596800\<rparr>\<rparr>))) < 1577836800"
  by (simp add: NewIncompleteConnection_def UpdateMeta_def tooOldTimestamp_def Let_def
        zeroConnection_def exPacket_def)

section \<open>DNS request inheritance\<close>

lemma wrap_int64_id:
  "- (2 ^ 63) \<le> x \<Longrightarrow> x < 2 ^ 63 \<Longrightarrow> wrap_int64 x = x"
  by (simp add: wrap_int64_def)

lemma UpdateFeatures_keeps:
  assumes "UpdateFeatures env c = Inr (err, c')"
  shows "process c' = process c \<and> PID c' = PID c \<and> dataComplete c' = dataComplete c \<and>
         Entity c' = Entity c"
  using assms
  by (auto simp add: UpdateFeatures_def Let_def
           split: prod.splits if_splits option.splits sum.splits)

lemma UpdateFeatures_returns:
  assumes "Entity c \<noteq> None"
  shows "\<exists>err c'. UpdateFeatures env c = Inr (err, c')"
proof -
  from assms obtain e where e: "Entity c = Some e" by auto
  obtain user uerr where u: "GetUser env = (user, uerr)" by (cases "GetUser env")
  show ?thesis
    using e u
    by (simp add: UpdateFeatures_def Let_def split: option.splits)
qed

lemma NewConnectionFromDNSRequest_inherited:
  assumes "inheritDNSRequestConn env now (dnsPacketInfo env localIP localPort)
             = (pi1, Some p, evs1)"
  shows "\<exists>c evs. NewConnectionFromDNSRequest env now timestamp metaNow fqdn cnames connID
                    localIP localPort = Inr (c, evs) \<and>
                  process c = Some p \<and> PID c = Pid p"
proof -
  obtain pCtx evs2 where gp: "getProcessContext p = (pCtx, evs2)"
    by (cases "getProcessContext p")
  show ?thesis
  proof (cases "LocalProfile_of (Profile_of (Some p))")
    case None
    with assms gp show ?thesis
      by (simp add: NewConnectionFromDNSRequest_def Let_def UpdateMeta_def)
  next
    case (Some l)
    let ?d = "zeroConnection\<lparr>ID := connID, Type := DNSRequest, Scope := fqdn,
                 PID := Pid p,
                 Entity := Some \<lparr>IP = [], Protocol = 0, Port = 0,
                                 Domain = fqdn, CNAME = cnames,
                                 IPScope = Global, dstPort = 0\<rparr>,
                 process := Some p, ProcessContext := pCtx,
                 Started := timestamp, Ended := timestamp,
                 dataComplete := True, Internal := lp_Internal l\<rparr>"
    have "Entity ?d \<noteq> None" by simp
    then obtain err c' where uf: "UpdateFeatures env ?d = Inr (err, c')"
      using UpdateFeatures_returns by blast
    from UpdateFeatures_keeps [OF uf] have k: "process c' = Some p" "PID c' = Pid p"
      by simp_all
    from assms Some gp uf k show ?thesis
      by (simp add: NewConnectionFromDNSRequest_def Let_def UpdateMeta_def)
  qed
qed

text \<open>
  C5, as the code has it (for a clock reading whose \<open>now - 3\<close> is an int64): the switch of
  NewConnectionFromDNSRequest takes over the PID and the process reference of the
  reported DNS request connection if and only if such an entry is found, its PID is not
  negative, and its Ended is not positive or not older than 3 seconds; otherwise the PID
  stays undefined and no process is taken over. When a process reference is taken over,
  the new connection holds that process and its Pid.
\<close>

theorem C5_inherit_iff_live:
  assumes "- (2 ^ 63) + 3 \<le> now" and "now < 2 ^ 63"
  shows "(case inheritDNSRequestConn env now pi of (pi', proc, evs) \<Rightarrow> (pi', proc)) =
           (case GetDNSRequestConnection env pi of
              None \<Rightarrow> (pi, None)
            | Some d \<Rightarrow>
                if 0 \<le> PID d \<and> (Ended d \<le> 0 \<or> now - 3 \<le> Ended d)
                then (pi\<lparr>pi_PID := PID d\<rparr>, process d)
                else (pi, None)) \<and>
         (\<forall>d p. GetDNSRequestConnection env (dnsPacketInfo env localIP localPort) = Some d \<and>
                 0 \<le> PID d \<and> (Ended d \<le> 0 \<or> now - 3 \<le> Ended d) \<and> process d = Some p
            \<longrightarrow> (\<exists>c evs. NewConnectionFromDNSRequest env now timestamp metaNow fqdn cnames
                             connID localIP localPort = Inr (c, evs) \<and>
                           process c = Some p \<and> PID c = Pid p))"
proof -
  from assms have w: "wrap_int64 (now - 3) = now - 3"
    by (intro wrap_int64_id) simp_all
  have sw: "(case inheritDNSRequestConn env now q of (pi', proc, evs) \<Rightarrow> (pi', proc)) =
           (case GetDNSRequestConnection env q of
              None \<Rightarrow> (q, None)
            | Some d \<Rightarrow>
                if 0 \<le> PID d \<and> (Ended d \<le> 0 \<or> now - 3 \<le> Ended d)
                then (q\<lparr>pi_PID := PID d\<rparr>, process d)
                else (q, None))" for q
    using w by (auto simp add: inheritDNSRequestConn_def split: option.splits)
  have "\<exists>c evs. NewConnectionFromDNSRequest env now timestamp metaNow fqdn cnames
                   connID localIP localPort = Inr (c, evs) \<and>
                 process c = Some p \<and> PID c = Pid p"
    if "GetDNSRequestConnection env (dnsPacketInfo env localIP localPort) = Some d"
      and "0 \<le> PID d" and "Ended d \<le> 0 \<or> now - 3 \<le> Ended d" and "process d = Some p"
    for d p
  proof -
    obtain pi1 proc evs1 where
      r: "inheritDNSRequestConn env now (dnsPacketInfo env localIP localPort)
            = (pi1, proc, evs1)"
      by (cases "inheritDNSRequestConn env now (dnsPacketInfo env localIP localPort)")
    from sw [of "dnsPacketInfo env localIP localPort"] r that have "proc = Some p"
      by simp
    with r have "inheritDNSRequestConn env now (dnsPacketInfo env localIP localPort)
                   = (pi1, Some p, evs1)"
      by simp
    then show ?thesis
      by (rule NewConnectionFromDNSRequest_inherited)
  qed
  with sw [of pi] show ?thesis
    by blast
qed

text \<open>
  An entry that has not ended donates its PID and process; one that ended 4 seconds ago
  does not.
\<close>

theorem C5_inherit_iff_live_witness:
  "- (2 ^ 63) + 3 \<le> (1700000000::int) \<and> (1700000000::int) < 2 ^ 63 \<and>
   (case inheritDNSRequestConn (exDNSEnv 0) 1700000000
           (dnsPacketInfo (exDNSEnv 0) [10, 0, 0, 2] 55000) of
      (pi', proc, evs) \<Rightarrow> (pi_PID pi', proc)) = (4711, Some exProcess) \<and>
   (case inheritDNSRequestConn (exDNSEnv 1699999996) 1700000000
           (dnsPacketInfo (exDNSEnv 1699999996) [10, 0, 0, 2] 55000) of
      (pi', proc, evs) \<Rightarrow> (pi_PID pi', proc)) = (- 1, None) \<and>
   (\<exists>c evs. NewConnectionFromDNSRequest (exDNSEnv 0) 1700000000 1700000000 1700000000
               ''a.example.'' [] ''dns-1'' [10, 0, 0, 2] 55000 = Inr (c, evs) \<and>
             process c = Some exProcess \<and> PID c = 4711)"
proof -
  have a: "- (2 ^ 63) + 3 \<le> (1700000000::int)" by simp
  have b: "(1700000000::int) < 2 ^ 63" by simp
  have g: "GetDNSRequestConnection (exDNSEnv 0) (dnsPacketInfo (exDNSEnv 0) [10, 0, 0, 2] 55000)
             = Some (exDNSRequestConn 0)"
    by (simp add: exDNSEnv_def)
  have k: "0 \<le> PID (exDNSRequestConn 0) \<and> Ended (exDNSRequestConn 0) \<le> 0 \<and>
           process (exDNSRequestConn 0) = Some exProcess \<and> Pid exProcess = 4711"
    by (simp add: exDNSRequestConn_def exProcess_def)
  from C5_inherit_iff_live [OF a b, of "exDNSEnv 0"
         "dnsPacketInfo (exDNSEnv 0) [10, 0, 0, 2] 55000" "[10, 0, 0, 2]" 55000
         1700000000 1700000000 "''a.example.''" "[]" "''dns-1''"] g k
  have one: "(case inheritDNSRequestConn (exDNSEnv 0) 1700000000
                   (dnsPacketInfo (exDNSEnv 0) [10, 0, 0, 2] 55000) of
                (pi', proc, evs) \<Rightarrow> (pi_PID pi', proc)) = (4711, Some exProcess)"
    and three: "\<exists>c evs. NewConnectionFromDNSRequest (exDNSEnv 0) 1700000000 1700000000
                 1700000000 ''a.example.'' [] ''dns-1'' [10, 0, 0, 2] 55000 = Inr (c, evs) \<and>
               process c = Some exProcess \<and> PID c = 4711"
    by (auto simp add: exDNSRequestConn_def split: prod.splits)
  from C5_inherit_iff_live [OF a b, of "exDNSEnv 1699999996"
         "dnsPacketInfo (exDNSEnv 1699999996) [10, 0, 0, 2] 55000"]
  have two: "(case inheritDNSRequestConn (exDNSEnv 1699999996) 1700000000
                   (dnsPacketInfo (exDNSEnv 1699999996) [10, 0, 0, 2] 55000) of
                (pi', proc, evs) \<Rightarrow> (pi_PID pi', proc)) = (- 1, None)"
    by (auto simp add: exDNSEnv_def exDNSRequestConn_def exEnv_def dnsPacketInfo_def Let_def
          split: prod.splits)
  from a b one two three show ?thesis
    by blast
qed

text \<open>
  C5 as stated fails: an entry whose Ended is -1 is neither at 0 nor within the last 3
  seconds of 1700000000, and yet it donates its PID and its process.
\<close>

theorem C5_negative_Ended_counterexample:
  "\<not> spec_live 1700000000 (- 1) \<and>
   pi_PID (fst (inheritDNSRequestConn (exDNSEnv (- 1)) 1700000000
                  (dnsPacketInfo (exDNSEnv (- 1)) [10, 0, 0, 2] 55000))) = 4711 \<and>
   fst (snd (inheritDNSRequestConn (exDNSEnv (- 1)) 1700000000
               (dnsPacketInfo (exDNSEnv (- 1)) [10, 0, 0, 2] 55000))) = Some exProcess"
  by (simp add: spec_live_def inheritDNSRequestConn_def exDNSEnv_def exDNSRequestConn_def
        exEnv_def zeroConnection_def wrap_int64_def dnsPacketInfo_def Let_def)

section \<open>Completeness of the gathered data\<close>

lemma gatherEntity_dataComplete:
  "dataComplete (gatherEntity env pkt conn) = dataComplete conn"
  by (simp add: gatherEntity_def SetLocalIP_def Let_def split: IPScope.splits)

lemma gatherPID_dataComplete:
  "dataComplete (gatherPID env pkt conn) = dataComplete conn"
  by (simp add: gatherPID_def split: prod.splits)

lemma gatherProcess_dataComplete:
  "dataComplete (fst (gatherProcess env pkt conn)) = dataComplete conn"
  by (simp add: gatherProcess_def Let_def split: prod.splits)

lemma gatherProfile_dataComplete:
  assumes "gatherProfile env conn = Inr (c, evs)"
  shows "dataComplete c = dataComplete conn"
proof (cases "process conn")
  case None
  with assms show ?thesis by (simp add: gatherProfile_def)
next
  case (Some p)
  show ?thesis
  proof (cases "ProfileRevisionCounter conn = 0")
    case False
    with assms Some show ?thesis by (simp add: gatherProfile_def)
  next
    case True
    obtain pCtx evs0 where gp: "getProcessContext p = (pCtx, evs0)"
      by (cases "getProcessContext p")
    show ?thesis
    proof (cases "LocalProfile_of (Profile_of (Some p))")
      case None
      with assms Some True gp show ?thesis
        by (auto simp add: gatherProfile_def Let_def)
    next
      case l: (Some l)
      with assms Some True gp obtain err where
        "UpdateFeatures env
           (conn\<lparr>ProcessContext := pCtx,
                  ProfileRevisionCounter := RevisionCnt_of (Profile_of (Some p)),
                  Internal := lp_Internal l\<rparr>) = Inr (err, c)"
        by (auto simp add: gatherProfile_def Let_def split: sum.splits)
      from UpdateFeatures_keeps [OF this] show ?thesis by simp
    qed
  qed
qed

lemma gatherDomain_dataComplete:
  assumes "gatherDomain env pkt conn = Inr (c, evs)"
  shows "dataComplete c = dataComplete conn"
  using assms
  by (auto simp add: gatherDomain_def Let_def split: option.splits if_splits)

lemma gatherCaptivePortal_dataComplete:
  assumes "gatherCaptivePortal env pkt conn = Inr c"
  shows "dataComplete c = dataComplete conn"
  using assms
  by (auto simp add: gatherCaptivePortal_def Let_def split: option.splits if_splits)

lemma checkComplete_dataComplete:
  "dataComplete (checkComplete pkt c) =
     (dataComplete c \<or>
      (\<not> InfoOnly pkt \<and> process c \<noteq> None \<and> Profile_of (process c) \<noteq> None \<and>
       Entity c \<noteq> None))"
  by (simp add: checkComplete_def)

lemma checkComplete_fields:
  "process (checkComplete pkt c) = process c \<and> Entity (checkComplete pkt c) = Entity c"
  by (simp add: checkComplete_def)

text \<open>
  C3: when GatherConnectionInfo returns for a packet, the dataComplete flag is set if and
  only if it was set before the call, or the packet is not info-only and, as the call
  leaves them, the connection's process is known, the process's profile is known and the
  Entity exists.
\<close>

theorem C3_dataComplete_iff:
  assumes "GatherConnectionInfo env pkt conn = Inr (conn', evs)"
  shows "dataComplete conn' \<longleftrightarrow>
           dataComplete conn \<or>
           (\<not> InfoOnly pkt \<and> process conn' \<noteq> None \<and>
            Profile_of (process conn') \<noteq> None \<and> Entity conn' \<noteq> None)"
proof (cases "InfoOnly pkt")
  case True
  with assms have "conn' = gatherPID env pkt (gatherEntity env pkt conn)"
    by (simp add: GatherConnectionInfo_def Let_def)
  with True show ?thesis
    by (simp add: gatherPID_dataComplete gatherEntity_dataComplete)
next
  case False
  let ?c2 = "gatherPID env pkt (gatherEntity env pkt conn)"
  obtain c3 evs1 where s3: "gatherProcess env pkt ?c2 = (c3, evs1)"
    by (cases "gatherProcess env pkt ?c2")
  from assms False s3 obtain c4 evs2 where s4: "gatherProfile env c3 = Inr (c4, evs2)"
    by (auto simp add: GatherConnectionInfo_def Let_def split: sum.splits)
  from assms False s3 s4 obtain c5 evs3 where s5: "gatherDomain env pkt c4 = Inr (c5, evs3)"
    by (auto simp add: GatherConnectionInfo_def Let_def split: sum.splits)
  from assms False s3 s4 s5 obtain c6 where s6: "gatherCaptivePortal env pkt c5 = Inr c6"
    by (auto simp add: GatherConnectionInfo_def Let_def split: sum.splits)
  from assms False s3 s4 s5 s6 have r: "conn' = checkComplete pkt c6"
    by (simp add: GatherConnectionInfo_def Let_def)
  have "dataComplete c3 = dataComplete conn"
    using gatherProcess_dataComplete [of env pkt ?c2] s3
    by (simp add: gatherPID_dataComplete gatherEntity_dataComplete)
  moreover have "dataComplete c4 = dataComplete c3"
    by (rule gatherProfile_dataComplete [OF s4])
  moreover have "dataComplete c5 = dataComplete c4"
    by (rule gatherDomain_dataComplete [OF s5])
  moreover have "dataComplete c6 = dataComplete c5"
    by (rule gatherCaptivePortal_dataComplete [OF s6])
  ultimately have "dataComplete c6 = dataComplete conn" by simp
  with r show ?thesis
    by (simp add: checkComplete_dataComplete checkComplete_fields)
qed

text \<open>
  The first real packet of the outbound web flow completes the connection; the same
  packet as an info-only packet does not.
\<close>

theorem C3_dataComplete_iff_witness:
  "\<not> dataComplete (fst (NewIncompleteConnection 1700000000 1700000000 exPacket)) \<and>
   (\<exists>c evs. GatherConnectionInfo exEnv exPacket
               (fst (NewIncompleteConnection 1700000000 1700000000 exPacket)) = Inr (c, evs) \<and>
             dataComplete c \<and> \<not> InfoOnly exPacket \<and> process c \<noteq> None \<and>
             Profile_of (process c) \<noteq> None \<and> Entity c \<noteq> None) \<and>
   (\<exists>c evs. GatherConnectionInfo exEnv (exPacket\<lparr>InfoOnly := True\<rparr>)
               (fst (NewIncompleteConnection 1700000000 1700000000 exPacket)) = Inr (c, evs) \<and>
             \<not> dataComplete c)"
proof -
  let ?c0 = "fst (NewIncompleteConnection 1700000000 1700000000 exPacket)"
  have n: "\<not> dataComplete ?c0"
    by (simp add: NewIncompleteConnection_def UpdateMeta_def zeroConnection_def Let_def)
  have "\<exists>c evs. GatherConnectionInfo exEnv exPacket ?c0 = Inr (c, evs) \<and>
          process c \<noteq> None \<and> Profile_of (process c) \<noteq> None \<and> Entity c \<noteq> None"
    by (simp add: GatherConnectionInfo_def gatherEntity_def gatherPID_def gatherProcess_def
        gatherProfile_def gatherDomain_def gatherCaptivePortal_def checkComplete_def
        NewIncompleteConnection_def UpdateMeta_def zeroConnection_def exEnv_def exPacket_def
        exProcess_def exLayeredProfile_def exLocalProfile_def Let_def Init_def SetLocalIP_def
        RemoteIP_def RemotePort_def LocalIP_of_def LocalPort_of_def getProcessContext_def
        LocalProfile_of_def Profile_of_def RevisionCnt_of_def UpdateFeatures_def Process_def
        IsLocalhost_def MayUse_def IP_Equal_def tooOldTimestamp_def)
  then obtain c evs where g: "GatherConnectionInfo exEnv exPacket ?c0 = Inr (c, evs)"
    and k: "process c \<noteq> None" "Profile_of (process c) \<noteq> None" "Entity c \<noteq> None"
    by blast
  have i: "\<not> InfoOnly exPacket"
    by (simp add: exPacket_def)
  from C3_dataComplete_iff [OF g] k i have d: "dataComplete c"
    by simp
  have "\<exists>c evs. GatherConnectionInfo exEnv (exPacket\<lparr>InfoOnly := True\<rparr>) ?c0 = Inr (c, evs)"
    by (simp add: GatherConnectionInfo_def Let_def)
  then obtain c' evs' where
    g': "GatherConnectionInfo exEnv (exPacket\<lparr>InfoOnly := True\<rparr>) ?c0 = Inr (c', evs')"
    by blast
  from C3_dataComplete_iff [OF g'] n have "\<not> dataComplete c'"
    by simp
  with n g d i k g' show ?thesis
    by blast
qed

end
